theory Spec2Isabelle
  imports Main "HOL-Library.Char_ord" "HOL-Library.List_Lexorder"
begin

section \<open>The irrigation control script (control.py)\<close>

text \<open>
  control.py is one run of the sprinkler controller: it reads the configuration
  document, evaluates the weather limits, runs a schedule or a single zone through
  the relay driver, and writes the control flags back. The embedding below follows the
  script top to bottom. Everything the script does to the outside is a field of the
  record \<open>world\<close>: the JSON file, the relay driver's call history, the log file and the
  wall clock. The helpers of common.py (ReadJSON, WriteJSON, WriteLog, create_wx_json)
  and the platform drivers (platform_chip, platform_raspi, platform_prototype) are not
  part of the sources at hand; they appear as the operations on \<open>world\<close> and as
  parameters.
\<close>

subsection \<open>The configuration document (irrigator.json)\<close>

text \<open>
  Numbers of the weather data (temperatures, precipitation amounts, limits) are JSON
  numbers, ints or floats in Python. The script only compares and adds them, so their
  type is a parameter \<open>'n\<close> with an order and an addition.
\<close>

text \<open>An entry of \<open>zonemap\<close>. The field GPIO_mapping is only handed to the driver.\<close>

record zone_entry =
  enabled :: bool
  z_active :: bool

text \<open>
  An entry of \<open>schedules\<close>: \<open>zones\<close> maps a zone name to its duration (the object under
  the key 'zones', each value reduced to its 'duration'), kept as the list of items of
  the dict, whose keys are distinct; \<open>start_active\<close> is ['start_time']['active'].
\<close>

record schedule =
  zones :: "(string \<times> int) list"
  start_active :: bool

record controls =
  ctl_active :: bool
  manual_override :: bool

record settings =
  cfg_relay_trigger :: int
  target_sys :: string

record 'n wx_data =
  units :: string
  precip :: 'n
  min_temp :: 'n
  max_temp :: 'n
  history_enable :: bool
  forecast_enable :: bool
  temp_enable :: bool
  forecast_history_enable :: bool

record 'n doc =
  zonemap :: "string \<rightharpoonup> zone_entry"
  schedules :: "string \<rightharpoonup> schedule"
  settings :: settings
  controls :: controls
  wx_data :: "'n wx_data"

text \<open>The weather status document (wx_status.json), the fields the script reads.\<close>

record 'n wx_status =
  temp_current :: 'n
  rain_history_total :: 'n
  rain_forecast :: 'n

subsection \<open>The world outside the script\<close>

text \<open>
  A call of the relay driver: the level written, the zone, and the code returned.
\<close>

type_synonym relay_call = "int \<times> string \<times> int"

text \<open>
  The driver object: \<open>platform.setrelay(level, zone)\<close> returns an error code. The code
  may depend on everything the driver was asked before, so it is a function of the
  history of calls.
\<close>

type_synonym platform = "relay_call list \<Rightarrow> int \<Rightarrow> string \<Rightarrow> int"

text \<open>
  \<^item> \<open>json_file\<close>: the content of the JSON file.
  \<^item> \<open>ext\<close>: what the web interface, a separate process, does to the file. It sets
    \<open>controls.manual_override\<close>; one element per read of the file by the script:
    \<open>Some b\<close> when the flag was written with \<open>b\<close> since the script last touched the file,
    \<open>None\<close> when it was not. After the list is used up the file is left alone.
  \<^item> \<open>clock\<close>: the wall clock in seconds; \<open>time.sleep(1)\<close> advances it by one.
  \<^item> \<open>relay_calls\<close>: the calls of \<open>platform.setrelay\<close> so far, oldest first.
  \<^item> \<open>cleanups\<close>: the number of calls of \<open>platform.cleanup\<close>.
  \<^item> \<open>log\<close>: the lines written by WriteLog, oldest first.
  \<^item> \<open>observed\<close>: the values of the override flag that CheckOverride has read.
  \<^item> \<open>irrigations\<close>: the calls of Irrigate that have returned: zone, duration and
    the error code returned.
\<close>

record 'n world =
  json_file :: "'n doc"
  ext :: "bool option list"
  clock :: nat
  relay_calls :: "relay_call list"
  cleanups :: nat
  log :: "string list"
  observed :: "bool list"
  irrigations :: "(string \<times> int \<times> int) list"

definition ReadJSON :: "'n world \<Rightarrow> 'n doc \<times> 'n world" where
  "ReadJSON w =
     (let d = (case ext w of
                 Some b # _ \<Rightarrow> (json_file w)\<lparr>controls := (controls (json_file w))\<lparr>manual_override := b\<rparr>\<rparr>
               | _ \<Rightarrow> json_file w)
      in (d, w\<lparr>json_file := d, ext := tl (ext w)\<rparr>))"

definition WriteJSON :: "'n doc \<Rightarrow> 'n world \<Rightarrow> 'n world" where
  "WriteJSON d w = w\<lparr>json_file := d\<rparr>"

definition WriteLog :: "string \<Rightarrow> 'n world \<Rightarrow> 'n world" where
  "WriteLog event w = w\<lparr>log := log w @ [event]\<rparr>"

definition sleep1 :: "'n world \<Rightarrow> 'n world" where
  "sleep1 w = w\<lparr>clock := clock w + 1\<rparr>"

definition setrelay :: "platform \<Rightarrow> int \<Rightarrow> string \<Rightarrow> 'n world \<Rightarrow> int \<times> 'n world" where
  "setrelay p level zonename w =
     (let r = p (relay_calls w) level zonename
      in (r, w\<lparr>relay_calls := relay_calls w @ [(level, zonename, r)]\<rparr>))"

definition cleanup :: "'n world \<Rightarrow> 'n world" where
  "cleanup w = w\<lparr>cleanups := cleanups w + 1\<rparr>"

subsection \<open>Python's str of an int, and \<open>not\<close> on an int\<close>

definition digit :: "nat \<Rightarrow> char" where
  "digit n = ''0123456789'' ! (n mod 10)"

fun str_nat :: "nat \<Rightarrow> string" where
  "str_nat n = (if n < 10 then [digit n] else str_nat (n div 10) @ [digit n])"

declare str_nat.simps [simp del]

definition str_int :: "int \<Rightarrow> string" where
  "str_int i = (if i < 0 then CHR ''-'' # str_nat (nat (- i)) else str_nat (nat i))"

text \<open>\<open>not x\<close> is True (1) when \<open>x\<close> is 0 and False (0) otherwise.\<close>

definition py_not :: "int \<Rightarrow> int" where
  "py_not x = (if x = 0 then 1 else 0)"

subsection \<open>CheckOverride and Irrigate\<close>

definition CheckOverride :: "'n world \<Rightarrow> int \<times> 'n world" where
  "CheckOverride w =
     (let (json_data_dict, w1) = ReadJSON w;
          errorcode = (if manual_override (controls json_data_dict) then 42 else 0)
      in (errorcode,
          w1\<lparr>observed := observed w1 @ [manual_override (controls json_data_dict)]\<rparr>))"

text \<open>
  The hold loop of Irrigate (lines 44 to 49). \<open>now\<close> is the clock at every test of the
  loop condition: it is \<open>starttime\<close> on entry and read again after each sleep.
\<close>

function hold :: "nat \<Rightarrow> int \<Rightarrow> 'n world \<Rightarrow> 'n world" where
  "hold starttime duration w =
     (if int (clock w) - int starttime < duration * 60
      then (case CheckOverride w of
              (ov, w1) \<Rightarrow> if ov > 0 then w1 else hold starttime duration (sleep1 w1))
      else w)"
  by pat_completeness auto
termination
proof (relation "measure (\<lambda>(starttime, duration, w).
                   nat (duration * 60 - (int (clock w) - int starttime)))")
qed (auto simp: sleep1_def CheckOverride_def ReadJSON_def Let_def)

declare hold.simps [simp del]

definition Irrigate ::
  "platform \<Rightarrow> string \<Rightarrow> int \<Rightarrow> int \<Rightarrow> 'n world \<Rightarrow> int \<times> 'n world" where
  "Irrigate p zonename duration relay_trigger w =
     (let errorcode = 0;
          w1 = WriteLog (''Turning on Zone: '' @ zonename @ '' for '' @ str_int duration
                           @ '' minutes.'') w;
          (r1, w2) = setrelay p relay_trigger zonename w1;
          errorcode = errorcode + r1;
          starttime = clock w2;
          w3 = hold starttime duration w2;
          w4 = WriteLog (''Turning off Zone: '' @ zonename @ ''.'') w3;
          (r2, w5) = setrelay p (py_not relay_trigger) zonename w4;
          errorcode = errorcode + r2;
          (ov, w6) = CheckOverride w5;
          errorcode = (if ov > 0 then 42 else errorcode)
      in (errorcode, w6\<lparr>irrigations := irrigations w6 @ [(zonename, duration, errorcode)]\<rparr>))"

subsection \<open>Command line and weather status\<close>

text \<open>
  The parsed command line. \<open>arg_duration\<close> is the value of -d after \<open>int(...)\<close>;
  \<open>None\<close> stands for an option that is absent. The option -j only names the file and
  is left out.
\<close>

record args =
  arg_zone :: "string option"
  arg_duration :: "int option"
  arg_schedule :: "string option"
  arg_force :: bool
  arg_init :: bool

text \<open>
  What the script needs around the weather status: \<open>wx_file\<close> is the content of
  wx_status.json, \<open>None\<close> when reading it raises; \<open>create_wx_json\<close> is the default of
  common.py; \<open>str_num\<close> is Python's formatting of a number inside an f-string.
\<close>

record 'n weather_env =
  wx_file :: "'n wx_status option"
  create_wx_json :: "'n wx_status"
  str_num :: "'n \<Rightarrow> string"

definition checkweather :: "'n weather_env \<Rightarrow> 'n wx_status \<times> int" where
  "checkweather x =
     (let errorcode = 0
      in case wx_file x of
           Some wx_status \<Rightarrow> (wx_status, errorcode)
         | None \<Rightarrow> (create_wx_json x, 6))"

text \<open>An uncaught exception ends the script with a traceback.\<close>

datatype error = KeyError string

subsection \<open>The script, lines 101 to 209: start-up\<close>

record 'n vars =
  v_json_data_dict :: "'n doc"
  v_relay_trigger :: int
  v_schedule_selected :: string
  v_schedule_run :: bool
  v_zone :: string
  v_duration :: int
  v_init :: bool
  v_force :: bool
  v_errorcode :: int
  v_wx_status :: "'n wx_status"

definition wx_event :: "'n weather_env \<Rightarrow> 'n doc \<Rightarrow> 'n wx_status \<Rightarrow> string" where
  "wx_event x json_data_dict wx_status =
     (let p_units = (if units (wx_data json_data_dict) = ''F'' then ''inches'' else ''mm'');
          event = [];
          event = (if temp_enable (wx_data json_data_dict)
                   then event @ ''Current Temperature: '' @ str_num x (temp_current wx_status)
                          @ units (wx_data json_data_dict) @ '' ''
                   else event);
          event = (if history_enable (wx_data json_data_dict)
                   then event @ ''Precipitation History: ''
                          @ str_num x (rain_history_total wx_status) @ '' '' @ p_units @ '' ''
                   else event);
          event = (if forecast_enable (wx_data json_data_dict)
                   then event @ ''Precipitation Forecast: ''
                          @ str_num x (rain_forecast wx_status) @ '' '' @ p_units @ '' ''
                   else event)
      in event)"

definition startup :: "args \<Rightarrow> 'n weather_env \<Rightarrow> 'n world \<Rightarrow> 'n vars \<times> 'n world" where
  "startup a x w =
     (let w = WriteLog ''***** Control Script Starting *****'' w;
          (json_data_dict, w) = ReadJSON w;
          relay_trigger = cfg_relay_trigger (settings json_data_dict);
          json_data_dict = json_data_dict\<lparr>controls :=
                             (controls json_data_dict)\<lparr>ctl_active := True\<rparr>\<rparr>;
          w = WriteJSON json_data_dict w;
          (schedule_selected, schedule_run) =
             (case arg_schedule a of
                Some (c # cs) \<Rightarrow> (c # cs, True)
              | _ \<Rightarrow> (''null'', False));
          zone = (case arg_zone a of Some (c # cs) \<Rightarrow> c # cs | _ \<Rightarrow> ''null'');
          duration = (case arg_duration a of Some n \<Rightarrow> n | None \<Rightarrow> 0);
          init = arg_init a;
          w = (if target_sys (settings json_data_dict) = ''CHIP''
               then WriteLog ''Initializing Relays on CHIP.'' w
               else if target_sys (settings json_data_dict) = ''RasPi''
               then WriteLog ''Initializing Relays on Raspberry Pi.'' w
               else WriteLog ''Initializing Relays on NONE.  Prototype Mode.'' w);
          (wx_status, errorcode) = checkweather x;
          w = (if errorcode \<noteq> 0 then w
               else if wx_event x json_data_dict wx_status \<noteq> []
               then WriteLog (wx_event x json_data_dict wx_status) w
               else w);
          (force, w) = (if arg_force a = True
                        then (True, WriteLog ''Force run selected. Ignoring weather.'' w)
                        else (False, w))
      in (\<lparr>v_json_data_dict = json_data_dict, v_relay_trigger = relay_trigger,
           v_schedule_selected = schedule_selected, v_schedule_run = schedule_run,
           v_zone = zone, v_duration = duration, v_init = init, v_force = force,
           v_errorcode = errorcode, v_wx_status = wx_status\<rparr>, w))"

subsection \<open>Lines 211 to 238: the weather flags\<close>

definition wx_check :: "'n::{plus,ord} doc \<Rightarrow> 'n wx_status \<Rightarrow> bool \<times> string" where
  "wx_check json_data_dict wx_status =
     (let wx_cancel = False;
          wx_cancel_reason = [];
          (wx_cancel, wx_cancel_reason) =
             (if history_enable (wx_data json_data_dict)
                 \<and> rain_history_total wx_status > precip (wx_data json_data_dict)
              then (True, wx_cancel_reason @ ''(Precipitation History) '')
              else (wx_cancel, wx_cancel_reason));
          (wx_cancel, wx_cancel_reason) =
             (if forecast_enable (wx_data json_data_dict)
                 \<and> rain_forecast wx_status > precip (wx_data json_data_dict)
              then (True, wx_cancel_reason @ ''(Precipitation Forecast) '')
              else (wx_cancel, wx_cancel_reason));
          (wx_cancel, wx_cancel_reason) =
             (if temp_enable (wx_data json_data_dict)
                 \<and> (temp_current wx_status < min_temp (wx_data json_data_dict)
                      \<or> temp_current wx_status > max_temp (wx_data json_data_dict))
              then (True, wx_cancel_reason @ ''(Temperature) '')
              else (wx_cancel, wx_cancel_reason));
          (wx_cancel, wx_cancel_reason) =
             (if forecast_history_enable (wx_data json_data_dict)
                 \<and> rain_forecast wx_status + rain_history_total wx_status
                       > precip (wx_data json_data_dict)
              then (True, wx_cancel_reason @ ''(Precipitation Forecast + History) '')
              else (wx_cancel, wx_cancel_reason))
      in (wx_cancel, wx_cancel_reason))"

subsection \<open>Lines 244 to 303: the if / else tree\<close>

datatype branch = Initialize | ScheduleRun | ManualRun | WeatherCancellation | NoAction

text \<open>The conditions of the tree, in the order of the source.\<close>

definition selected_branch :: "bool \<Rightarrow> bool \<Rightarrow> bool \<Rightarrow> bool \<Rightarrow> branch" where
  "selected_branch init schedule_run wx_cancel force =
     (if init then Initialize
      else if schedule_run = True \<and> (wx_cancel = False \<or> force = True) then ScheduleRun
      else if schedule_run = False \<and> (wx_cancel = False \<or> force = True) then ManualRun
      else if wx_cancel = True then WeatherCancellation
      else NoAction)"

text \<open>
  The loop over the sorted items of the schedule's zones (lines 258 to 269). A zone
  name that is not a key of \<open>zonemap\<close> raises KeyError.
\<close>

fun zone_loop ::
  "platform \<Rightarrow> int \<Rightarrow> (string \<times> int) list \<Rightarrow> int \<Rightarrow> 'n doc \<Rightarrow> 'n world
     \<Rightarrow> (error + int \<times> 'n doc) \<times> 'n world" where
  "zone_loop p relay_trigger [] errorcode json_data_dict w =
     (Inr (errorcode, json_data_dict), w)"
| "zone_loop p relay_trigger ((index_key, duration) # rest) errorcode json_data_dict w =
     (case zonemap json_data_dict index_key of
        None \<Rightarrow> (Inl (KeyError index_key), w)
      | Some z \<Rightarrow>
          if enabled z = True \<and> duration \<noteq> 0
          then
            (let json_data_dict = json_data_dict\<lparr>zonemap :=
                   (zonemap json_data_dict)(index_key \<mapsto> z\<lparr>z_active := True\<rparr>)\<rparr>;
                 w = WriteJSON json_data_dict w;
                 (errorcode, w) = Irrigate p index_key duration relay_trigger w;
                 (json_data_dict, w) = ReadJSON w
             in case zonemap json_data_dict index_key of
                  None \<Rightarrow> (Inl (KeyError index_key), w)
                | Some z \<Rightarrow>
                    (let json_data_dict = json_data_dict\<lparr>zonemap :=
                           (zonemap json_data_dict)(index_key \<mapsto> z\<lparr>z_active := False\<rparr>)\<rparr>;
                         w = WriteJSON json_data_dict w
                     in zone_loop p relay_trigger rest errorcode json_data_dict w))
          else zone_loop p relay_trigger rest errorcode json_data_dict w)"

definition schedule_branch ::
  "platform \<Rightarrow> 'n vars \<Rightarrow> 'n world \<Rightarrow> (error + 'n vars) \<times> 'n world" where
  "schedule_branch p v w =
     (let schedule_selected = v_schedule_selected v;
          json_data_dict = v_json_data_dict v;
          w = WriteLog (''Schedule Run Selected with Schedule: '' @ schedule_selected) w
      in case schedules json_data_dict schedule_selected of
           Some sc \<Rightarrow>
             (let w = WriteLog (schedule_selected @ '' found in JSON file. Running Now.'') w;
                  json_data_dict = json_data_dict\<lparr>schedules :=
                    (schedules json_data_dict)(schedule_selected \<mapsto> sc\<lparr>start_active := True\<rparr>)\<rparr>;
                  w = WriteJSON json_data_dict w
              in case zone_loop p (v_relay_trigger v) (sort_key fst (zones sc))
                        (v_errorcode v) json_data_dict w of
                   (Inl e, w) \<Rightarrow> (Inl e, w)
                 | (Inr (errorcode, json_data_dict), w) \<Rightarrow>
                     (case schedules json_data_dict schedule_selected of
                        None \<Rightarrow> (Inl (KeyError schedule_selected), w)
                      | Some sc \<Rightarrow>
                          (let json_data_dict = json_data_dict\<lparr>schedules :=
                                 (schedules json_data_dict)
                                   (schedule_selected \<mapsto> sc\<lparr>start_active := False\<rparr>)\<rparr>;
                               w = WriteJSON json_data_dict w
                           in (Inr (v\<lparr>v_json_data_dict := json_data_dict,
                                      v_errorcode := errorcode\<rparr>), w))))
         | None \<Rightarrow>
             (let w = WriteLog (schedule_selected @ '' not found in JSON file.  Exiting Now.'') w
              in (Inr (v\<lparr>v_errorcode := 1\<rparr>), w)))"

definition manual_branch ::
  "platform \<Rightarrow> 'n vars \<Rightarrow> 'n world \<Rightarrow> (error + 'n vars) \<times> 'n world" where
  "manual_branch p v w =
     (let zone = v_zone v;
          json_data_dict = v_json_data_dict v;
          w = WriteLog ''Manual Run Selected.'' w
      in case zonemap json_data_dict zone of
           Some z \<Rightarrow>
             (let json_data_dict = json_data_dict\<lparr>zonemap :=
                    (zonemap json_data_dict)(zone \<mapsto> z\<lparr>z_active := True\<rparr>)\<rparr>;
                  w = WriteJSON json_data_dict w;
                  (errorcode, w) = Irrigate p zone (v_duration v) (v_relay_trigger v) w;
                  json_data_dict = json_data_dict\<lparr>zonemap :=
                    (zonemap json_data_dict)(zone \<mapsto> z\<lparr>z_active := False\<rparr>)\<rparr>;
                  w = WriteJSON json_data_dict w
              in (Inr (v\<lparr>v_json_data_dict := json_data_dict, v_errorcode := errorcode\<rparr>), w))
         | None \<Rightarrow>
             (let w = WriteLog (zone @ '' not found in JSON file.  Exiting.'') w
              in (Inr (v\<lparr>v_errorcode := 1\<rparr>), w)))"

definition tree ::
  "platform \<Rightarrow> 'n vars \<Rightarrow> bool \<Rightarrow> string \<Rightarrow> 'n world \<Rightarrow> (error + 'n vars) \<times> 'n world" where
  "tree p v wx_cancel wx_cancel_reason w =
     (case selected_branch (v_init v) (v_schedule_run v) wx_cancel (v_force v) of
        Initialize \<Rightarrow>
          (let w = WriteLog ''Initialize Relays Selected.'' w
           in (Inr (v\<lparr>v_errorcode := 0\<rparr>), w))
      | ScheduleRun \<Rightarrow> schedule_branch p v w
      | ManualRun \<Rightarrow> manual_branch p v w
      | WeatherCancellation \<Rightarrow>
          (let w = WriteLog (''Irrigation cancelled due to weather status exceeding limits. ''
                               @ wx_cancel_reason) w
           in (Inr (v\<lparr>v_errorcode := 1\<rparr>), w))
      | NoAction \<Rightarrow>
          (let w = WriteLog ''No Action.'' w
           in (Inr (v\<lparr>v_errorcode := 0\<rparr>), w)))"

subsection \<open>Lines 305 to 319: clean-up and exit\<close>

definition finish :: "'n vars \<Rightarrow> 'n world \<Rightarrow> 'n world" where
  "finish v w =
     (let w = cleanup w;
          w = WriteLog (''Exiting with errorcode = '' @ str_int (v_errorcode v)) w;
          w = WriteLog ''***** Control Script Ended *****'' w;
          json_data_dict = v_json_data_dict v;
          json_data_dict = json_data_dict\<lparr>controls :=
                             (controls json_data_dict)\<lparr>ctl_active := False\<rparr>\<rparr>;
          json_data_dict = json_data_dict\<lparr>controls :=
                             (controls json_data_dict)\<lparr>manual_override := False\<rparr>\<rparr>
      in WriteJSON json_data_dict w)"

text \<open>
  The whole script. The result is \<open>Inr errorcode\<close>, the value of \<open>errorcode\<close> when
  \<open>exit()\<close> is reached, or \<open>Inl e\<close> when an exception ended the script before.
  The script calls \<open>exit()\<close> without an argument: \<open>errorcode\<close> is what it has logged,
  not the status of the process.
\<close>

definition control_script ::
  "platform \<Rightarrow> args \<Rightarrow> 'n::{plus,ord} weather_env \<Rightarrow> 'n world \<Rightarrow> (error + int) \<times> 'n world" where
  "control_script p a x w =
     (let (v, w) = startup a x w;
          (wx_cancel, wx_cancel_reason) = wx_check (v_json_data_dict v) (v_wx_status v)
      in case tree p v wx_cancel wx_cancel_reason w of
           (Inl e, w) \<Rightarrow> (Inl e, w)
         | (Inr v, w) \<Rightarrow> (Inr (v_errorcode v), finish v w))"

section \<open>Notions used in the properties\<close>

text \<open>The two codes the driver returns during one call of Irrigate.\<close>

definition engage_code :: "platform \<Rightarrow> string \<Rightarrow> int \<Rightarrow> 'n world \<Rightarrow> int" where
  "engage_code p zonename relay_trigger w = p (relay_calls w) relay_trigger zonename"

definition disengage_code :: "platform \<Rightarrow> string \<Rightarrow> int \<Rightarrow> 'n world \<Rightarrow> int" where
  "disengage_code p zonename relay_trigger w =
     p (relay_calls w @ [(relay_trigger, zonename, engage_code p zonename relay_trigger w)])
       (py_not relay_trigger) zonename"

text \<open>Two documents that differ at most in \<open>controls.manual_override\<close>.\<close>

definition override_only :: "'n doc \<Rightarrow> 'n doc \<Rightarrow> bool" where
  "override_only d d' \<longleftrightarrow>
     zonemap d' = zonemap d \<and> schedules d' = schedules d \<and> settings d' = settings d
     \<and> wx_data d' = wx_data d \<and> ctl_active (controls d') = ctl_active (controls d)"

text \<open>Two documents with the same schedules, the same zones and the same enabled flags.\<close>

definition same_cfg :: "'n doc \<Rightarrow> 'n doc \<Rightarrow> bool" where
  "same_cfg d d' \<longleftrightarrow>
     schedules d' = schedules d
     \<and> (\<forall>k. map_option enabled (zonemap d' k) = map_option enabled (zonemap d k))"

text \<open>The test of lines 259 and 260 on an item of the schedule.\<close>

definition included :: "'n doc \<Rightarrow> string \<times> int \<Rightarrow> bool" where
  "included d item =
     (case zonemap d (fst item) of
        Some z \<Rightarrow> enabled z = True \<and> snd item \<noteq> 0
      | None \<Rightarrow> False)"

text \<open>Every zone named by a schedule is a key of \<open>zonemap\<close>.\<close>

definition zones_known :: "'n doc \<Rightarrow> schedule \<Rightarrow> bool" where
  "zones_known d sc = list_all (\<lambda>item. zonemap d (fst item) \<noteq> None) (zones sc)"

text \<open>The level and the zone of a relay call; the zone and the duration of an irrigation.\<close>

definition call_of :: "relay_call \<Rightarrow> int \<times> string" where
  "call_of c = (fst c, fst (snd c))"

definition run_of :: "string \<times> int \<times> int \<Rightarrow> string \<times> int" where
  "run_of r = (fst r, fst (snd r))"

definition code_of :: "string \<times> int \<times> int \<Rightarrow> int" where
  "code_of r = snd (snd r)"

text \<open>The relay calls of a list of items that are all run: on, then off, for each.\<close>

definition calls_for :: "int \<Rightarrow> (string \<times> int) list \<Rightarrow> (int \<times> string) list" where
  "calls_for relay_trigger items =
     concat (map (\<lambda>item. [(relay_trigger, fst item), (py_not relay_trigger, fst item)]) items)"

text \<open>What the script does after start-up, given the verdict of the weather flags.\<close>

definition run_tree ::
  "platform \<Rightarrow> bool \<Rightarrow> string \<Rightarrow> 'n vars \<times> 'n world \<Rightarrow> (error + int) \<times> 'n world" where
  "run_tree p wx_cancel wx_cancel_reason s =
     (case tree p (fst s) wx_cancel wx_cancel_reason (snd s) of
        (Inl e, w) \<Rightarrow> (Inl e, w)
      | (Inr v, w) \<Rightarrow> (Inr (v_errorcode v), finish v w))"

text \<open>The same with the branch given: the schedule run or the manual run.\<close>

definition run_requested ::
  "platform \<Rightarrow> 'n vars \<times> 'n world \<Rightarrow> (error + int) \<times> 'n world" where
  "run_requested p s =
     (case (if v_schedule_run (fst s) then schedule_branch p (fst s) (snd s)
            else manual_branch p (fst s) (snd s)) of
        (Inl e, w) \<Rightarrow> (Inl e, w)
      | (Inr v, w) \<Rightarrow> (Inr (v_errorcode v), finish v w))"

text \<open>
  What the command line asks for: a manual run of a zone (no schedule named, a zone
  named), or the run of a schedule. An empty string counts as absent, as in Python.
\<close>

definition manual_requested :: "args \<Rightarrow> string \<Rightarrow> bool" where
  "manual_requested a zone \<longleftrightarrow>
     (arg_schedule a = None \<or> arg_schedule a = Some []) \<and> arg_zone a = Some zone \<and> zone \<noteq> []"

definition schedule_requested :: "args \<Rightarrow> string \<Rightarrow> bool" where
  "schedule_requested a name \<longleftrightarrow> arg_schedule a = Some name \<and> name \<noteq> []"

section \<open>A configuration to run the script on\<close>

definition ex_doc :: "int doc" where
  "ex_doc =
     \<lparr>zonemap = [''frontlawn'' \<mapsto> \<lparr>enabled = True, z_active = False\<rparr>,
                 ''backyard'' \<mapsto> \<lparr>enabled = False, z_active = False\<rparr>,
                 ''alley'' \<mapsto> \<lparr>enabled = True, z_active = False\<rparr>],
      schedules = [''morning'' \<mapsto>
                     \<lparr>zones = [(''frontlawn'', 5), (''backyard'', 3), (''alley'', 2)],
                      start_active = False\<rparr>],
      settings = \<lparr>cfg_relay_trigger = 0, target_sys = ''RasPi''\<rparr>,
      controls = \<lparr>ctl_active = False, manual_override = False\<rparr>,
      wx_data = \<lparr>units = ''F'', precip = 1, min_temp = 32, max_temp = 100,
                 history_enable = True, forecast_enable = True, temp_enable = False,
                 forecast_history_enable = False\<rparr>\<rparr>"

text \<open>The schedule morning of \<open>ex_doc\<close>.\<close>

definition ex_morning :: schedule where
  "ex_morning =
     \<lparr>zones = [(''frontlawn'', 5), (''backyard'', 3), (''alley'', 2)],
      start_active = False\<rparr>"

text \<open>The schedule names a zone, driveway, that \<open>zonemap\<close> does not have.\<close>

definition ex_doc_dangling :: "int doc" where
  "ex_doc_dangling =
     ex_doc\<lparr>schedules := [''morning'' \<mapsto>
                            \<lparr>zones = [(''frontlawn'', 5), (''driveway'', 5)],
                             start_active = False\<rparr>]\<rparr>"

definition ex_world :: "int doc \<Rightarrow> bool option list \<Rightarrow> int world" where
  "ex_world d e =
     \<lparr>json_file = d, ext = e, clock = 0, relay_calls = [], cleanups = 0,
      log = [], observed = [], irrigations = []\<rparr>"

text \<open>A driver that returns 3 when it writes level 0 and 4 otherwise.\<close>

definition ex_platform :: platform where
  "ex_platform h level zonename = (if level = 0 then 3 else 4)"

definition ex_wx :: "int \<Rightarrow> int \<Rightarrow> int weather_env" where
  "ex_wx history forecast =
     \<lparr>wx_file = Some \<lparr>temp_current = 70, rain_history_total = history,
                       rain_forecast = forecast\<rparr>,
      create_wx_json = \<lparr>temp_current = 0, rain_history_total = 0, rain_forecast = 0\<rparr>,
      str_num = str_int\<rparr>"

definition ex_schedule_args :: args where
  "ex_schedule_args =
     \<lparr>arg_zone = None, arg_duration = None, arg_schedule = Some ''morning'',
      arg_force = False, arg_init = False\<rparr>"

definition ex_manual_args :: "bool \<Rightarrow> bool \<Rightarrow> args" where
  "ex_manual_args force init =
     \<lparr>arg_zone = Some ''frontlawn'', arg_duration = Some 5, arg_schedule = None,
      arg_force = force, arg_init = init\<rparr>"

text \<open>The variables of the script in a schedule run of morning on \<open>ex_doc\<close>.\<close>

definition ex_vars :: "int vars" where
  "ex_vars =
     \<lparr>v_json_data_dict = ex_doc, v_relay_trigger = 0, v_schedule_selected = ''morning'',
      v_schedule_run = True, v_zone = ''null'', v_duration = 0, v_init = False,
      v_force = False, v_errorcode = 0,
      v_wx_status = \<lparr>temp_current = 70, rain_history_total = 0, rain_forecast = 0\<rparr>\<rparr>"

text \<open>
  A driver that returns 21 for every call.
\<close>

definition ex_platform_21 :: platform where
  "ex_platform_21 h level zonename = 21"

text \<open>
  The schedule morning of \<open>ex_doc_dangling\<close>.
\<close>

definition ex_morning_dangling :: schedule where
  "ex_morning_dangling =
     \<lparr>zones = [(''frontlawn'', 5), (''driveway'', 5)], start_active = False\<rparr>"

definition ex_forced_schedule_args :: args where
  "ex_forced_schedule_args =
     \<lparr>arg_zone = None, arg_duration = None, arg_schedule = Some ''morning'',
      arg_force = True, arg_init = False\<rparr>"

section \<open>What the operations on the world leave alone\<close>

lemma override_only_refl: "override_only d d"
  by (simp add: override_only_def)

lemma override_only_trans:
  "override_only a b \<Longrightarrow> override_only b c \<Longrightarrow> override_only a c"
  by (simp add: override_only_def)

lemma ReadJSON_frame:
  "relay_calls (snd (ReadJSON w)) = relay_calls w"
  "log (snd (ReadJSON w)) = log w"
  "cleanups (snd (ReadJSON w)) = cleanups w"
  "irrigations (snd (ReadJSON w)) = irrigations w"
  "observed (snd (ReadJSON w)) = observed w"
  "clock (snd (ReadJSON w)) = clock w"
  "json_file (snd (ReadJSON w)) = fst (ReadJSON w)"
  by (simp_all add: ReadJSON_def Let_def)

lemma ReadJSON_override_only: "override_only (json_file w) (fst (ReadJSON w))"
  by (simp add: ReadJSON_def Let_def override_only_def split: list.splits option.splits)

lemma CheckOverride_frame:
  "relay_calls (snd (CheckOverride w)) = relay_calls w"
  "log (snd (CheckOverride w)) = log w"
  "cleanups (snd (CheckOverride w)) = cleanups w"
  "irrigations (snd (CheckOverride w)) = irrigations w"
  "override_only (json_file w) (json_file (snd (CheckOverride w)))"
  using ReadJSON_override_only [of w]
  by (simp_all add: CheckOverride_def ReadJSON_frame split: prod.splits)
     (simp_all add: ReadJSON_def Let_def)

lemma CheckOverride_observed:
  "observed (snd (CheckOverride w)) = observed w @ [0 < fst (CheckOverride w)]"
  by (simp add: CheckOverride_def ReadJSON_def Let_def split: prod.splits)

lemma CheckOverride_quiet:
  assumes "ext w = []" "\<not> manual_override (controls (json_file w))"
  shows "fst (CheckOverride w) = 0" "ext (snd (CheckOverride w)) = []"
    "json_file (snd (CheckOverride w)) = json_file w"
    "observed (snd (CheckOverride w)) = observed w @ [False]"
  using assms by (simp_all add: CheckOverride_def ReadJSON_def Let_def)

text \<open>The hold loop only reads the file and records what it saw.\<close>

lemma hold_frame:
  "relay_calls (hold s d w) = relay_calls w \<and> log (hold s d w) = log w
   \<and> cleanups (hold s d w) = cleanups w \<and> irrigations (hold s d w) = irrigations w
   \<and> override_only (json_file w) (json_file (hold s d w))
   \<and> (\<exists>bs. observed (hold s d w) = observed w @ bs)"
proof (induction s d w rule: hold.induct)
  case (1 s d w)
  show ?case
  proof (cases "int (clock w) - int s < d * 60")
    case False
    then have "hold s d w = w" by (subst hold.simps) simp
    then show ?thesis by (simp add: override_only_refl)
  next
    case True
    obtain ov w1 where c: "CheckOverride w = (ov, w1)" by (cases "CheckOverride w")
    have f: "relay_calls w1 = relay_calls w" "log w1 = log w" "cleanups w1 = cleanups w"
      "irrigations w1 = irrigations w" "override_only (json_file w) (json_file w1)"
      "observed w1 = observed w @ [0 < ov]"
      using CheckOverride_frame [of w] CheckOverride_observed [of w] c by simp_all
    show ?thesis
    proof (cases "ov > 0")
      case True
      have "hold s d w = w1" using \<open>int (clock w) - int s < d * 60\<close> c True
        by (subst hold.simps) simp
      then show ?thesis using f by simp
    next
      case False
      have h: "hold s d w = hold s d (sleep1 w1)"
        using \<open>int (clock w) - int s < d * 60\<close> c False by (subst hold.simps) simp
      have ih: "relay_calls (hold s d (sleep1 w1)) = relay_calls (sleep1 w1) \<and>
        log (hold s d (sleep1 w1)) = log (sleep1 w1) \<and>
        cleanups (hold s d (sleep1 w1)) = cleanups (sleep1 w1) \<and>
        irrigations (hold s d (sleep1 w1)) = irrigations (sleep1 w1) \<and>
        override_only (json_file (sleep1 w1)) (json_file (hold s d (sleep1 w1))) \<and>
        (\<exists>bs. observed (hold s d (sleep1 w1)) = observed (sleep1 w1) @ bs)"
        using 1 [OF \<open>int (clock w) - int s < d * 60\<close> c [symmetric] False] .
      have s: "relay_calls (sleep1 w1) = relay_calls w1" "log (sleep1 w1) = log w1"
        "cleanups (sleep1 w1) = cleanups w1" "irrigations (sleep1 w1) = irrigations w1"
        "json_file (sleep1 w1) = json_file w1" "observed (sleep1 w1) = observed w1"
        by (simp_all add: sleep1_def)
      show ?thesis
        using ih f override_only_trans [of "json_file w" "json_file w1"] unfolding h s
        by auto
    qed
  qed
qed

text \<open>With nobody writing the override flag, the loop never sees it set.\<close>

lemma hold_quiet:
  "ext w = [] \<Longrightarrow> \<not> manual_override (controls (json_file w)) \<Longrightarrow>
   ext (hold s d w) = [] \<and> json_file (hold s d w) = json_file w
   \<and> set (observed (hold s d w)) \<subseteq> insert False (set (observed w))"
proof (induction s d w rule: hold.induct)
  case (1 s d w)
  show ?case
  proof (cases "int (clock w) - int s < d * 60")
    case False
    then have "hold s d w = w" by (subst hold.simps) simp
    then show ?thesis using 1(2) by auto
  next
    case True
    obtain ov w1 where c: "CheckOverride w = (ov, w1)" by (cases "CheckOverride w")
    have f: "ov = 0" "ext w1 = []" "json_file w1 = json_file w"
      "observed w1 = observed w @ [False]"
      using CheckOverride_quiet [OF 1(2,3)] c by simp_all
    have h: "hold s d w = hold s d (sleep1 w1)" using True c f(1)
      by (subst hold.simps) simp
    have s: "ext (sleep1 w1) = []" "json_file (sleep1 w1) = json_file w"
      "observed (sleep1 w1) = observed w @ [False]"
      using f by (simp_all add: sleep1_def)
    have "ext (hold s d (sleep1 w1)) = []
      \<and> json_file (hold s d (sleep1 w1)) = json_file (sleep1 w1)
      \<and> set (observed (hold s d (sleep1 w1))) \<subseteq> insert False (set (observed (sleep1 w1)))"
      using 1(1) [OF True c [symmetric] _ s(1)] f(1) s(2) 1(3) by simp
    then show ?thesis unfolding h s by auto
  qed
qed

section \<open>Irrigate\<close>

lemma Irrigate_unfold:
  "Irrigate p z d rt w =
     (let r1 = engage_code p z rt w;
          w2 = w\<lparr>log := log w @ [''Turning on Zone: '' @ z @ '' for '' @ str_int d
                                     @ '' minutes.''],
                 relay_calls := relay_calls w @ [(rt, z, r1)]\<rparr>;
          w3 = hold (clock w2) d w2;
          r2 = p (relay_calls w3) (py_not rt) z;
          w5 = w3\<lparr>log := log w3 @ [''Turning off Zone: '' @ z @ ''.''],
                  relay_calls := relay_calls w3 @ [(py_not rt, z, r2)]\<rparr>;
          c = CheckOverride w5;
          ec = (if fst c > 0 then 42 else r1 + r2)
      in (ec, (snd c)\<lparr>irrigations := irrigations (snd c) @ [(z, d, ec)]\<rparr>))"
  by (simp add: Irrigate_def Let_def setrelay_def WriteLog_def engage_code_def
           split: prod.splits)

lemma Irrigate_relay_calls:
  "relay_calls (snd (Irrigate p z d rt w)) =
     relay_calls w @ [(rt, z, engage_code p z rt w), (py_not rt, z, disengage_code p z rt w)]"
  by (simp add: Irrigate_unfold Let_def CheckOverride_frame hold_frame disengage_code_def)

lemma Irrigate_frame:
  "cleanups (snd (Irrigate p z d rt w)) = cleanups w"
  "log (snd (Irrigate p z d rt w)) =
     log w @ [''Turning on Zone: '' @ z @ '' for '' @ str_int d @ '' minutes.'',
              ''Turning off Zone: '' @ z @ ''.'']"
  "irrigations (snd (Irrigate p z d rt w)) = irrigations w @ [(z, d, fst (Irrigate p z d rt w))]"
  by (simp_all add: Irrigate_unfold Let_def CheckOverride_frame hold_frame)

lemma Irrigate_override_only:
  "override_only (json_file w) (json_file (snd (Irrigate p z d rt w)))"
proof -
  define w2 where "w2 = w\<lparr>log := log w @ [''Turning on Zone: '' @ z @ '' for '' @ str_int d
                                     @ '' minutes.''],
                 relay_calls := relay_calls w @ [(rt, z, engage_code p z rt w)]\<rparr>"
  define w3 where "w3 = hold (clock w2) d w2"
  define w5 where "w5 = w3\<lparr>log := log w3 @ [''Turning off Zone: '' @ z @ ''.''],
      relay_calls := relay_calls w3 @ [(py_not rt, z, p (relay_calls w3) (py_not rt) z)]\<rparr>"
  have a: "override_only (json_file w) (json_file w3)"
    using hold_frame [of "clock w2" d w2] by (simp add: w3_def w2_def)
  have b: "override_only (json_file w3) (json_file (snd (CheckOverride w5)))"
    using CheckOverride_frame(5) [of w5] by (simp add: w5_def)
  have "json_file (snd (Irrigate p z d rt w)) = json_file (snd (CheckOverride w5))"
    by (simp add: Irrigate_unfold Let_def w5_def w3_def w2_def)
  then show ?thesis using override_only_trans [OF a b] by simp
qed

lemma Irrigate_result:
  "fst (Irrigate p z d rt w) =
     (if last (observed (snd (Irrigate p z d rt w))) then 42
      else engage_code p z rt w + disengage_code p z rt w)"
  by (simp add: Irrigate_unfold Let_def CheckOverride_observed CheckOverride_frame hold_frame
        disengage_code_def)

lemma Irrigate_observed:
  "\<exists>bs. observed (snd (Irrigate p z d rt w)) = observed w @ bs \<and> bs \<noteq> []"
proof -
  define w2 where "w2 = w\<lparr>log := log w @ [''Turning on Zone: '' @ z @ '' for '' @ str_int d
                                     @ '' minutes.''],
                 relay_calls := relay_calls w @ [(rt, z, engage_code p z rt w)]\<rparr>"
  define w3 where "w3 = hold (clock w2) d w2"
  define w5 where "w5 = w3\<lparr>log := log w3 @ [''Turning off Zone: '' @ z @ ''.''],
      relay_calls := relay_calls w3 @ [(py_not rt, z, p (relay_calls w3) (py_not rt) z)]\<rparr>"
  obtain bs where bs: "observed w3 = observed w @ bs"
    using hold_frame [of "clock w2" d w2] by (auto simp: w3_def w2_def)
  have "observed (snd (Irrigate p z d rt w)) = observed w5 @ [0 < fst (CheckOverride w5)]"
    by (simp add: Irrigate_unfold Let_def w5_def w3_def w2_def CheckOverride_observed)
  then have "observed (snd (Irrigate p z d rt w))
      = observed w @ (bs @ [0 < fst (CheckOverride w5)])"
    using bs by (simp add: w5_def)
  then show ?thesis by blast
qed

lemma Irrigate_quiet:
  assumes "ext w = []" "\<not> manual_override (controls (json_file w))"
  shows "set (observed (snd (Irrigate p z d rt w))) \<subseteq> insert False (set (observed w))"
proof -
  define w2 where "w2 = w\<lparr>log := log w @ [''Turning on Zone: '' @ z @ '' for '' @ str_int d
                                     @ '' minutes.''],
                 relay_calls := relay_calls w @ [(rt, z, engage_code p z rt w)]\<rparr>"
  define w3 where "w3 = hold (clock w2) d w2"
  define w5 where "w5 = w3\<lparr>log := log w3 @ [''Turning off Zone: '' @ z @ ''.''],
      relay_calls := relay_calls w3 @ [(py_not rt, z, p (relay_calls w3) (py_not rt) z)]\<rparr>"
  have a: "ext w3 = []" "json_file w3 = json_file w"
    "set (observed w3) \<subseteq> insert False (set (observed w))"
    using hold_quiet [of w2 "clock w2" d] assms by (simp_all add: w3_def w2_def)
  have b: "observed (snd (CheckOverride w5)) = observed w5 @ [False]"
    using CheckOverride_quiet(4) [of w5] a assms by (simp add: w5_def)
  have "observed (snd (Irrigate p z d rt w)) = observed (snd (CheckOverride w5))"
    by (simp add: Irrigate_unfold Let_def w5_def w3_def w2_def)
  then show ?thesis using a b by (auto simp: w5_def)
qed

text \<open>
  C2. Whatever the zone, the duration and the override flags read on the way, the call
  of Irrigate adds exactly two relay calls to the history: the call that engages the
  zone with the trigger level and, last, the call that writes the negated level to the
  same zone. Irrigate is a total function, so this holds for every way through the
  hold loop, the early abort included.
\<close>

theorem Irrigate_disengages:
  "relay_calls (snd (Irrigate p zonename duration relay_trigger w)) =
     relay_calls w @ [(relay_trigger, zonename, engage_code p zonename relay_trigger w),
                      (py_not relay_trigger, zonename,
                       disengage_code p zonename relay_trigger w)]
   \<and> py_not relay_trigger \<noteq> relay_trigger"
  by (simp add: Irrigate_relay_calls py_not_def)

theorem Irrigate_disengages_witness:
  "relay_calls (snd (Irrigate ex_platform ''frontlawn'' 5 0
                      (ex_world ex_doc [None, Some True]))) =
     [(0, ''frontlawn'', 3), (1, ''frontlawn'', 4)]"
  using Irrigate_disengages [of ex_platform "''frontlawn''" 5 0
                                "ex_world ex_doc [None, Some True]"]
  by (simp add: ex_world_def ex_platform_def engage_code_def disengage_code_def py_not_def)

text \<open>
  C3, as stated, fails in its second half: a driver that returns 21 for both calls
  makes Irrigate return 42 in a run in which no override flag is read as set, so 42 is
  not distinct from the codes of the driver.
\<close>

theorem driver_codes_reach_sentinel:
  "True \<notin> set (observed (snd (Irrigate ex_platform_21 ''frontlawn'' 5 0 (ex_world ex_doc []))))
   \<and> fst (Irrigate ex_platform_21 ''frontlawn'' 5 0 (ex_world ex_doc [])) = 42"
proof -
  have q: "True \<notin> set (observed (snd (Irrigate ex_platform_21 ''frontlawn'' 5 0
                                       (ex_world ex_doc []))))"
    using Irrigate_quiet [of "ex_world ex_doc []" ex_platform_21 "''frontlawn''" 5 0]
    by (auto simp: ex_world_def ex_doc_def)
  have "fst (Irrigate ex_platform_21 ''frontlawn'' 5 0 (ex_world ex_doc [])) = 42"
    by (subst Irrigate_result)
       (simp add: engage_code_def disengage_code_def ex_platform_21_def)
  then show ?thesis using q by simp
qed

text \<open>
  C3, amended. When the override flag read at line 55, after the relay was disengaged,
  is set, Irrigate returns 42, whatever the driver returned. The code 42 is told apart
  from the codes of the driver only as long as the two codes of the driver do not add up
  to 42: then Irrigate returns 42 only when that flag was set.
\<close>

theorem Irrigate_override_sentinel:
  "(last (observed (snd (Irrigate p zonename duration relay_trigger w)))
      \<longrightarrow> fst (Irrigate p zonename duration relay_trigger w) = 42)
   \<and> (engage_code p zonename relay_trigger w + disengage_code p zonename relay_trigger w \<noteq> 42
      \<longrightarrow> fst (Irrigate p zonename duration relay_trigger w) = 42
      \<longrightarrow> last (observed (snd (Irrigate p zonename duration relay_trigger w))))"
  by (subst (1 2) Irrigate_result) simp

lemma ex_abort_observed:
  "observed (snd (Irrigate ex_platform ''frontlawn'' 5 0 (ex_world ex_doc [None, Some True])))
     = [False, True, True]"
  by code_simp

theorem Irrigate_override_sentinel_witness:
  "last (observed (snd (Irrigate ex_platform ''frontlawn'' 5 0
                         (ex_world ex_doc [None, Some True]))))
   \<and> fst (Irrigate ex_platform ''frontlawn'' 5 0 (ex_world ex_doc [None, Some True])) = 42
   \<and> engage_code ex_platform ''frontlawn'' 0 (ex_world ex_doc [None, Some True])
       + disengage_code ex_platform ''frontlawn'' 0 (ex_world ex_doc [None, Some True]) \<noteq> 42"
  using Irrigate_override_sentinel [of ex_platform "''frontlawn''" 5 0
                                       "ex_world ex_doc [None, Some True]"]
  by (simp add: ex_abort_observed engage_code_def disengage_code_def ex_platform_def
        py_not_def)

text \<open>
  C4. When none of the override flags read during a call of Irrigate is set, the code
  returned is the sum of the two codes of the driver, the one of the engaging call and
  the one of the disengaging call; with a driver that always returns 0 it is 0.
\<close>

theorem Irrigate_hardware_sum:
  assumes "True \<notin> set (drop (length (observed w))
                          (observed (snd (Irrigate p zonename duration relay_trigger w))))"
  shows "fst (Irrigate p zonename duration relay_trigger w) =
           engage_code p zonename relay_trigger w + disengage_code p zonename relay_trigger w
         \<and> ((\<forall>h level z. p h level z = 0)
              \<longrightarrow> fst (Irrigate p zonename duration relay_trigger w) = 0)"
proof -
  obtain bs
    where bs: "observed (snd (Irrigate p zonename duration relay_trigger w)) = observed w @ bs"
    and ne: "bs \<noteq> []"
    using Irrigate_observed by blast
  have "last (observed (snd (Irrigate p zonename duration relay_trigger w))) = last bs"
    using bs ne by simp
  moreover have "True \<notin> set bs" using assms bs by simp
  moreover have "last bs \<in> set bs" using ne by simp
  ultimately have "\<not> last (observed (snd (Irrigate p zonename duration relay_trigger w)))"
    by auto
  then have "fst (Irrigate p zonename duration relay_trigger w) =
           engage_code p zonename relay_trigger w + disengage_code p zonename relay_trigger w"
    by (subst Irrigate_result) simp
  then show ?thesis by (simp add: engage_code_def disengage_code_def)
qed

lemma ex_quiet_observed:
  "True \<notin> set (observed (snd (Irrigate ex_platform ''frontlawn'' 5 0 (ex_world ex_doc []))))"
  using Irrigate_quiet [of "ex_world ex_doc []" ex_platform "''frontlawn''" 5 0]
  by (auto simp: ex_world_def ex_doc_def)

theorem Irrigate_hardware_sum_witness:
  "True \<notin> set (drop (length (observed (ex_world ex_doc [])))
                  (observed (snd (Irrigate ex_platform ''frontlawn'' 5 0
                                    (ex_world ex_doc [])))))
   \<and> fst (Irrigate ex_platform ''frontlawn'' 5 0 (ex_world ex_doc [])) = 7"
proof -
  have l: "length (observed (ex_world ex_doc [])) = 0"
    by (simp add: ex_world_def)
  have h: "True \<notin> set (drop (length (observed (ex_world ex_doc [])))
                  (observed (snd (Irrigate ex_platform ''frontlawn'' 5 0
                                    (ex_world ex_doc [])))))"
    unfolding l using ex_quiet_observed by simp
  have "fst (Irrigate ex_platform ''frontlawn'' 5 0 (ex_world ex_doc [])) = 7"
    using Irrigate_hardware_sum [OF h]
    by (simp add: ex_world_def ex_platform_def engage_code_def disengage_code_def py_not_def)
  then show ?thesis using h by simp
qed

section \<open>The weather flags\<close>




section \<open>The if / else tree\<close>

text \<open>
  C10. The last branch of the tree, No Action, is never selected: without the init flag,
  either the weather flags did not cancel or force is set, and then the schedule run or
  the manual run is selected according to \<open>schedule_run\<close>, or the weather flags cancelled
  without force, and then the weather cancellation is selected.
\<close>

theorem no_action_unreachable:
  "selected_branch init schedule_run wx_cancel force \<noteq> NoAction"
  by (simp add: selected_branch_def)

theorem no_action_unreachable_witness:
  "selected_branch False False True False \<noteq> NoAction"
  using no_action_unreachable [of False False True False] by simp

lemma startup_flags:
  "v_force (fst (startup a x w)) = arg_force a" "v_init (fst (startup a x w)) = arg_init a"
  by (simp_all add: startup_def Let_def split: prod.splits)

lemma control_script_run_tree:
  "control_script p a x w =
     run_tree p (fst (wx_check (v_json_data_dict (fst (startup a x w)))
                               (v_wx_status (fst (startup a x w)))))
                (snd (wx_check (v_json_data_dict (fst (startup a x w)))
                               (v_wx_status (fst (startup a x w)))))
                (startup a x w)"
  by (simp add: control_script_def run_tree_def split: prod.splits)




section \<open>The schedule run\<close>

lemma same_cfg_refl: "same_cfg d d"
  by (simp add: same_cfg_def)

lemma same_cfg_trans: "same_cfg a b \<Longrightarrow> same_cfg b c \<Longrightarrow> same_cfg a c"
  by (simp add: same_cfg_def)

lemma same_cfg_included: "same_cfg d d' \<Longrightarrow> included d' item = included d item"
proof -
  assume a: "same_cfg d d'"
  then have "map_option enabled (zonemap d' (fst item)) = map_option enabled (zonemap d (fst item))"
    by (simp add: same_cfg_def)
  then show ?thesis
    by (cases "zonemap d (fst item)"; cases "zonemap d' (fst item)") (simp_all add: included_def)
qed

lemma same_cfg_known:
  "same_cfg d d' \<Longrightarrow> (zonemap d' k \<noteq> None) = (zonemap d k \<noteq> None)"
proof -
  assume "same_cfg d d'"
  then have "map_option enabled (zonemap d' k) = map_option enabled (zonemap d k)"
    by (simp add: same_cfg_def)
  then show ?thesis
    by (cases "zonemap d k"; cases "zonemap d' k") simp_all
qed

lemma zone_loop_skip:
  assumes "zonemap d k = Some z" "\<not> (enabled z \<and> dur \<noteq> 0)"
  shows "zone_loop p rt ((k, dur) # rest) ec d w = zone_loop p rt rest ec d w"
  using assms by auto

lemma zone_loop_run:
  fixes d :: "'n doc" and w :: "'n world"
  assumes "zonemap d k = Some z" "enabled z" "dur \<noteq> 0"
  shows "\<exists>d' (w0 :: 'n world) w'. zone_loop p rt ((k, dur) # rest) ec d w
                      = zone_loop p rt rest (fst (Irrigate p k dur rt w0)) d' w'
           \<and> relay_calls w0 = relay_calls w \<and> irrigations w0 = irrigations w
           \<and> cleanups w0 = cleanups w
           \<and> relay_calls w' = relay_calls (snd (Irrigate p k dur rt w0))
           \<and> irrigations w' = irrigations (snd (Irrigate p k dur rt w0))
           \<and> cleanups w' = cleanups w
           \<and> same_cfg d d'"
proof -
  define d1 where "d1 = d\<lparr>zonemap := (zonemap d)(k \<mapsto> z\<lparr>z_active := True\<rparr>)\<rparr>"
  define w0 where "w0 = WriteJSON d1 w"
  define w2 where "w2 = snd (Irrigate p k dur rt w0)"
  define d2 where "d2 = fst (ReadJSON w2)"
  define w3 where "w3 = snd (ReadJSON w2)"
  define d3 where "d3 = d2\<lparr>zonemap := (zonemap d2)(k \<mapsto> z\<lparr>z_active := False\<rparr>)\<rparr>"
  have "override_only (json_file w0) (json_file w2)"
    unfolding w2_def by (rule Irrigate_override_only)
  moreover have "override_only (json_file w2) d2"
    unfolding d2_def by (rule ReadJSON_override_only)
  ultimately have o: "override_only d1 d2"
    using override_only_trans by (fastforce simp: w0_def WriteJSON_def)
  then have zm: "zonemap d2 = zonemap d1" and sc: "schedules d2 = schedules d1"
    by (simp_all add: override_only_def)
  have z2: "zonemap d2 k = Some (z\<lparr>z_active := True\<rparr>)"
    by (simp add: zm d1_def)
  have eq: "zone_loop p rt ((k, dur) # rest) ec d w
      = zone_loop p rt rest (fst (Irrigate p k dur rt w0)) d3 (WriteJSON d3 w3)"
    using assms z2
    by (simp add: Let_def split_beta d1_def [symmetric] w0_def [symmetric]
          w2_def [symmetric] d2_def [symmetric] w3_def [symmetric] d3_def)
  have c: "same_cfg d d3"
    using assms(1) by (auto simp: same_cfg_def d3_def zm sc d1_def)
  have f: "relay_calls w0 = relay_calls w" "irrigations w0 = irrigations w"
    "cleanups w0 = cleanups w"
    by (simp_all add: w0_def WriteJSON_def)
  have g: "relay_calls (WriteJSON d3 w3) = relay_calls w2"
    "irrigations (WriteJSON d3 w3) = irrigations w2" "cleanups (WriteJSON d3 w3) = cleanups w"
    using f by (simp_all add: WriteJSON_def w3_def ReadJSON_frame w2_def Irrigate_frame)
  show ?thesis
    apply (rule exI [of _ d3], rule exI [of _ w0], rule exI [of _ "WriteJSON d3 w3"])
    using eq c f g unfolding w2_def by simp
qed

lemma calls_for_Cons:
  "calls_for rt (item # items) = (rt, fst item) # (py_not rt, fst item) # calls_for rt items"
  by (simp add: calls_for_def)

lemma calls_for_Nil: "calls_for rt [] = []"
  by (simp add: calls_for_def)

lemma zone_loop_known:
  fixes d :: "'n doc" and w :: "'n world"
  assumes "list_all (\<lambda>item. zonemap d (fst item) \<noteq> None) items"
  shows "\<exists>ec' d' w' runs calls. zone_loop p rt items ec d w = (Inr (ec', d'), w')
           \<and> same_cfg d d' \<and> cleanups w' = cleanups w
           \<and> irrigations w' = irrigations w @ runs
           \<and> map run_of runs = filter (included d) items
           \<and> relay_calls w' = relay_calls w @ calls
           \<and> map call_of calls = calls_for rt (filter (included d) items)
           \<and> ec' = (if runs = [] then ec else code_of (last runs))"
  using assms
proof (induction items arbitrary: ec d w)
  case Nil
  then show ?case by (simp add: same_cfg_refl calls_for_Nil)
next
  case (Cons item items)
  obtain k dur where item: "item = (k, dur)" by (cases item)
  obtain z where z: "zonemap d k = Some z" using Cons.prems item by auto
  have rest: "list_all (\<lambda>item. zonemap d (fst item) \<noteq> None) items"
    using Cons.prems by simp
  show ?case
  proof (cases "enabled z \<and> dur \<noteq> 0")
    case False
    then have ni: "\<not> included d item" using z item by (simp add: included_def)
    have "zone_loop p rt (item # items) ec d w = zone_loop p rt items ec d w"
      unfolding item using zone_loop_skip [OF z False] .
    then show ?thesis using Cons.IH [OF rest, of ec w] ni by simp
  next
    case True
    then have inc: "included d item" using z item by (simp add: included_def)
    have en: "enabled z" and nz: "dur \<noteq> 0" using True by simp_all
    obtain d1 and w0 :: "'n world" and w1 where
      st: "zone_loop p rt (item # items) ec d w
            = zone_loop p rt items (fst (Irrigate p k dur rt w0)) d1 w1"
      and f: "relay_calls w0 = relay_calls w" "irrigations w0 = irrigations w"
      and r1: "relay_calls w1 = relay_calls (snd (Irrigate p k dur rt w0))"
      and i1: "irrigations w1 = irrigations (snd (Irrigate p k dur rt w0))"
      and c1: "cleanups w1 = cleanups w"
      and s1: "same_cfg d d1"
      unfolding item
      using zone_loop_run [OF z en nz, where p = p and rt = rt and rest = items
                             and ec = ec and w = w]
      by blast
    have rest1: "list_all (\<lambda>item. zonemap d1 (fst item) \<noteq> None) items"
      using rest same_cfg_known [OF s1] by (simp add: list_all_iff)
    have fi: "filter (included d1) items = filter (included d) items"
      using same_cfg_included [OF s1] by (simp cong: filter_cong)
    obtain ec' d' w' runs calls where
      l: "zone_loop p rt items (fst (Irrigate p k dur rt w0)) d1 w1 = (Inr (ec', d'), w')"
      and s2: "same_cfg d1 d'" and c2: "cleanups w' = cleanups w1"
      and i2: "irrigations w' = irrigations w1 @ runs"
      and m2: "map run_of runs = filter (included d1) items"
      and r2: "relay_calls w' = relay_calls w1 @ calls"
      and k2: "map call_of calls = calls_for rt (filter (included d1) items)"
      and e2: "ec' = (if runs = [] then fst (Irrigate p k dur rt w0)
                      else code_of (last runs))"
      using Cons.IH [OF rest1, of "fst (Irrigate p k dur rt w0)" w1] by blast
    define run where "run = (k, dur, fst (Irrigate p k dur rt w0))"
    define on where "on = (rt, k, engage_code p k rt w0)"
    define off where "off = (py_not rt, k, disengage_code p k rt w0)"
    have iw1: "irrigations w1 = irrigations w @ [run]"
      using i1 f by (simp add: Irrigate_frame run_def)
    have rw1: "relay_calls w1 = relay_calls w @ [on, off]"
      using r1 f by (simp add: Irrigate_relay_calls on_def off_def)
    have a: "irrigations w' = irrigations w @ (run # runs)"
      using i2 iw1 by simp
    have a': "map run_of (run # runs) = filter (included d) (item # items)"
      using m2 inc fi by (simp add: run_of_def item run_def)
    have b: "relay_calls w' = relay_calls w @ (on # off # calls)"
      using r2 rw1 by simp
    have b': "map call_of (on # off # calls)
               = calls_for rt (filter (included d) (item # items))"
      using k2 inc fi by (simp add: calls_for_Cons item call_of_def on_def off_def)
    have e: "ec' = code_of (last (run # runs))"
      using e2 by (simp add: code_of_def run_def)
    have s: "same_cfg d d'" using same_cfg_trans [OF s1 s2] .
    have c: "cleanups w' = cleanups w" using c1 c2 by simp
    have r: "zone_loop p rt (item # items) ec d w = (Inr (ec', d'), w')"
      using st l by simp
    show ?thesis
      apply (rule exI [of _ ec'], rule exI [of _ d'], rule exI [of _ w'])
      apply (rule exI [of _ "run # runs"], rule exI [of _ "on # off # calls"])
      using r s c a a' b b' e by simp
  qed
qed

lemma schedule_branch_known:
  fixes v :: "'n vars" and w :: "'n world"
  assumes "schedules (v_json_data_dict v) (v_schedule_selected v) = Some sc"
    and "zones_known (v_json_data_dict v) sc"
  shows "\<exists>v' w' runs calls. schedule_branch p v w = (Inr v', w')
           \<and> cleanups w' = cleanups w
           \<and> irrigations w' = irrigations w @ runs
           \<and> map run_of runs = filter (included (v_json_data_dict v)) (sort_key fst (zones sc))
           \<and> relay_calls w' = relay_calls w @ calls
           \<and> map call_of calls = calls_for (v_relay_trigger v) (map run_of runs)
           \<and> v_errorcode v' = (if runs = [] then v_errorcode v else code_of (last runs))"
proof -
  define sel where "sel = v_schedule_selected v"
  define d where "d = v_json_data_dict v"
  define d0 where "d0 = d\<lparr>schedules := (schedules d)(sel \<mapsto> sc\<lparr>start_active := True\<rparr>)\<rparr>"
  define w0 where "w0 = WriteJSON d0
     (WriteLog (sel @ '' found in JSON file. Running Now.'')
        (WriteLog (''Schedule Run Selected with Schedule: '' @ sel) w))"
  have fr: "cleanups w0 = cleanups w" "irrigations w0 = irrigations w"
    "relay_calls w0 = relay_calls w"
    by (simp_all add: w0_def WriteJSON_def WriteLog_def)
  have inc: "included d0 = included d"
    by (rule ext) (simp add: included_def d0_def)
  have "list_all (\<lambda>item. zonemap d0 (fst item) \<noteq> None) (sort_key fst (zones sc))"
    using assms(2) by (simp add: zones_known_def list_all_iff d0_def d_def)
  from zone_loop_known [OF this, of p "v_relay_trigger v" "v_errorcode v" w0]
  obtain ec' d' w' runs calls where
    l: "zone_loop p (v_relay_trigger v) (sort_key fst (zones sc)) (v_errorcode v) d0 w0
          = (Inr (ec', d'), w')"
    and s: "same_cfg d0 d'" and c: "cleanups w' = cleanups w0"
    and i: "irrigations w' = irrigations w0 @ runs"
    and m: "map run_of runs = filter (included d0) (sort_key fst (zones sc))"
    and r: "relay_calls w' = relay_calls w0 @ calls"
    and k: "map call_of calls
              = calls_for (v_relay_trigger v) (filter (included d0) (sort_key fst (zones sc)))"
    and e: "ec' = (if runs = [] then v_errorcode v else code_of (last runs))"
    by blast
  have "schedules d' sel = Some (sc\<lparr>start_active := True\<rparr>)"
    using s by (simp add: same_cfg_def d0_def)
  then have "schedule_branch p v w =
     (Inr (v\<lparr>v_json_data_dict := d'\<lparr>schedules := (schedules d')(sel \<mapsto>
                 sc\<lparr>start_active := True, start_active := False\<rparr>)\<rparr>,
              v_errorcode := ec'\<rparr>),
      WriteJSON (d'\<lparr>schedules := (schedules d')(sel \<mapsto>
                 sc\<lparr>start_active := True, start_active := False\<rparr>)\<rparr>) w')"
    using assms(1) l
    by (simp add: schedule_branch_def Let_def sel_def d_def d0_def w0_def)
  then show ?thesis
    using fr c i m r k e inc unfolding d_def [symmetric]
    by (simp add: WriteJSON_def)
qed

lemma ex_morning_found:
  "schedules (v_json_data_dict ex_vars) (v_schedule_selected ex_vars) = Some ex_morning"
  by (simp add: ex_vars_def ex_doc_def ex_morning_def)

lemma ex_morning_known: "zones_known (v_json_data_dict ex_vars) ex_morning"
  by (simp add: zones_known_def ex_vars_def ex_doc_def ex_morning_def)

lemma ex_morning_included:
  "filter (included (v_json_data_dict ex_vars)) (sort_key fst (zones ex_morning))
     = [(''alley'', 2), (''frontlawn'', 5)]"
  by (simp add: included_def ex_vars_def ex_doc_def ex_morning_def)

lemma ex_morning_calls:
  "calls_for (v_relay_trigger ex_vars) [(''alley'', 2), (''frontlawn'', 5)]
     = [(0, ''alley''), (1, ''alley''), (0, ''frontlawn''), (1, ''frontlawn'')]"
  by (simp add: calls_for_def ex_vars_def py_not_def)

text \<open>
  A schedule that exists and names only zones of \<open>zonemap\<close> runs to its end: Irrigate
  is called for exactly the items whose zone is enabled and whose duration is not 0, one
  after the other in ascending order of the zone names; the relay calls are the two calls
  of each of these items, in that order; and the error code after the run is that of the
  last call of Irrigate, or the one before the run when every item is skipped.
\<close>

lemma schedule_run_zones:
  fixes v :: "'n vars" and w :: "'n world"
  assumes "schedules (v_json_data_dict v) (v_schedule_selected v) = Some sc"
    and "zones_known (v_json_data_dict v) sc"
  shows "\<exists>v' w' runs calls. schedule_branch p v w = (Inr v', w')
           \<and> irrigations w' = irrigations w @ runs
           \<and> map run_of runs = filter (included (v_json_data_dict v)) (sort_key fst (zones sc))
           \<and> relay_calls w' = relay_calls w @ calls
           \<and> map call_of calls
               = calls_for (v_relay_trigger v)
                   (filter (included (v_json_data_dict v)) (sort_key fst (zones sc)))
           \<and> sorted (map fst (sort_key fst (zones sc)))
           \<and> set (sort_key fst (zones sc)) = set (zones sc)
           \<and> v_errorcode v' = (if runs = [] then v_errorcode v else code_of (last runs))"
proof -
  obtain v' w' runs calls where "schedule_branch p v w = (Inr v', w')"
    "irrigations w' = irrigations w @ runs"
    "map run_of runs = filter (included (v_json_data_dict v)) (sort_key fst (zones sc))"
    "relay_calls w' = relay_calls w @ calls"
    "map call_of calls = calls_for (v_relay_trigger v) (map run_of runs)"
    "v_errorcode v' = (if runs = [] then v_errorcode v else code_of (last runs))"
    using schedule_branch_known [OF assms, of p w] by blast
  then show ?thesis
    apply (intro exI [of _ v'] exI [of _ w'] exI [of _ runs] exI [of _ calls])
    by simp
qed

lemma schedule_run_zones_example:
  "\<exists>v' w' runs calls.
      schedule_branch ex_platform ex_vars (ex_world ex_doc []) = (Inr v', w')
      \<and> irrigations w' = irrigations (ex_world ex_doc []) @ runs
      \<and> map run_of runs = [(''alley'', 2), (''frontlawn'', 5)]
      \<and> relay_calls w' = relay_calls (ex_world ex_doc []) @ calls
      \<and> map call_of calls
          = [(0, ''alley''), (1, ''alley''), (0, ''frontlawn''), (1, ''frontlawn'')]
      \<and> sorted (map fst (sort_key fst (zones ex_morning)))
      \<and> set (sort_key fst (zones ex_morning)) = set (zones ex_morning)
      \<and> v_errorcode v' = (if runs = [] then v_errorcode ex_vars else code_of (last runs))"
  using schedule_run_zones [OF ex_morning_found ex_morning_known,
          of ex_platform "ex_world ex_doc []"]
  unfolding ex_morning_included ex_morning_calls .

text \<open>
  In such a run with at least one item that is not skipped, the error code of the run is
  the code returned by the last call of Irrigate.
\<close>

lemma schedule_run_last_code:
  fixes v :: "'n vars" and w :: "'n world"
  assumes "schedules (v_json_data_dict v) (v_schedule_selected v) = Some sc"
    and "zones_known (v_json_data_dict v) sc"
    and "filter (included (v_json_data_dict v)) (zones sc) \<noteq> []"
  shows "\<exists>v' w' runs. schedule_branch p v w = (Inr v', w')
           \<and> irrigations w' = irrigations w @ runs \<and> runs \<noteq> []
           \<and> run_of (last runs)
               = last (filter (included (v_json_data_dict v)) (sort_key fst (zones sc)))
           \<and> v_errorcode v' = code_of (last runs)"
proof -
  obtain v' w' runs where b: "schedule_branch p v w = (Inr v', w')"
    and i: "irrigations w' = irrigations w @ runs"
    and m: "map run_of runs
             = filter (included (v_json_data_dict v)) (sort_key fst (zones sc))"
    and e: "v_errorcode v' = (if runs = [] then v_errorcode v else code_of (last runs))"
    using schedule_branch_known [OF assms(1,2), of p w] by blast
  have "filter (included (v_json_data_dict v)) (sort_key fst (zones sc)) \<noteq> []"
    using assms(3) by (simp add: filter_empty_conv)
  then have ne: "runs \<noteq> []" using m by auto
  then have "run_of (last runs) = last (map run_of runs)" by (simp add: last_map)
  then show ?thesis
    apply (intro exI [of _ v'] exI [of _ w'] exI [of _ runs])
    using b i m e ne by simp
qed

lemma schedule_run_last_code_example:
  "filter (included (v_json_data_dict ex_vars)) (zones ex_morning) \<noteq> []
   \<and> (\<exists>v' w' runs.
        schedule_branch ex_platform ex_vars (ex_world ex_doc []) = (Inr v', w')
        \<and> irrigations w' = irrigations (ex_world ex_doc []) @ runs \<and> runs \<noteq> []
        \<and> run_of (last runs) = (''frontlawn'', 5)
        \<and> v_errorcode v' = code_of (last runs))"
proof -
  have h: "filter (included (v_json_data_dict ex_vars)) (zones ex_morning) \<noteq> []"
    by (simp add: included_def ex_vars_def ex_doc_def ex_morning_def)
  show ?thesis
    using schedule_run_last_code [OF ex_morning_found ex_morning_known h,
            of ex_platform "ex_world ex_doc []"] h
    unfolding ex_morning_included by simp
qed

lemma ex_dangling_run:
  "fst (control_script ex_platform ex_schedule_args (ex_wx 0 0) (ex_world ex_doc_dangling []))
     = Inl (KeyError ''driveway'')
   \<and> relay_calls (snd (control_script ex_platform ex_schedule_args (ex_wx 0 0)
                         (ex_world ex_doc_dangling []))) = []
   \<and> irrigations (snd (control_script ex_platform ex_schedule_args (ex_wx 0 0)
                         (ex_world ex_doc_dangling []))) = []"
  unfolding control_script_run_tree by code_simp

text \<open>
  C8. The claim holds for schedules that name only zones of \<open>zonemap\<close>, as shown above.
  It fails where the schedule names a zone that \<open>zonemap\<close> does not have: the loop reads
  \<open>zonemap\<close> at line 259 without the test of line 281. In the schedule morning of
  \<open>ex_doc_dangling\<close> the zone frontlawn is enabled with duration 5, and the run ends with
  a KeyError at driveway, which sorts first, with no call of Irrigate and no relay call.
\<close>

theorem unknown_zone_stops_schedule_run:
  "schedules ex_doc_dangling ''morning'' = Some ex_morning_dangling
   \<and> included ex_doc_dangling (''frontlawn'', 5)
   \<and> fst (control_script ex_platform ex_schedule_args (ex_wx 0 0)
            (ex_world ex_doc_dangling [])) = Inl (KeyError ''driveway'')
   \<and> relay_calls (snd (control_script ex_platform ex_schedule_args (ex_wx 0 0)
                         (ex_world ex_doc_dangling []))) = []
   \<and> irrigations (snd (control_script ex_platform ex_schedule_args (ex_wx 0 0)
                         (ex_world ex_doc_dangling []))) = []"
  using ex_dangling_run
  by (simp add: ex_doc_dangling_def ex_doc_def ex_morning_dangling_def included_def)

text \<open>
  C9. For the same reason: the schedule morning of \<open>ex_doc_dangling\<close> has one item that
  is enabled with a duration other than 0, and the run ends with the KeyError, so there
  is no error code of the run at all.
\<close>

theorem unknown_zone_leaves_no_error_code:
  "schedules ex_doc_dangling ''morning'' = Some ex_morning_dangling
   \<and> filter (included ex_doc_dangling) (zones ex_morning_dangling) = [(''frontlawn'', 5)]
   \<and> (\<forall>errorcode. fst (control_script ex_platform ex_schedule_args (ex_wx 0 0)
                          (ex_world ex_doc_dangling [])) \<noteq> Inr errorcode)"
  using ex_dangling_run
  by (simp add: ex_doc_dangling_def ex_doc_def ex_morning_dangling_def included_def)

section \<open>Force\<close>

lemma startup_reads:
  "zonemap (v_json_data_dict (fst (startup a x w))) = zonemap (json_file w)"
  "schedules (v_json_data_dict (fst (startup a x w))) = schedules (json_file w)"
  "v_relay_trigger (fst (startup a x w)) = cfg_relay_trigger (settings (json_file w))"
  "v_duration (fst (startup a x w)) = (case arg_duration a of Some n \<Rightarrow> n | None \<Rightarrow> 0)"
  "v_errorcode (fst (startup a x w)) = snd (checkweather x)"
  "relay_calls (snd (startup a x w)) = relay_calls w"
  "irrigations (snd (startup a x w)) = irrigations w"
  by (simp_all add: startup_def Let_def split_beta ReadJSON_def WriteJSON_def WriteLog_def
        split: list.splits option.splits)

lemma startup_manual:
  assumes "manual_requested a zone"
  shows "v_zone (fst (startup a x w)) = zone" "\<not> v_schedule_run (fst (startup a x w))"
  using assms
  by (auto simp: manual_requested_def startup_def Let_def split_beta neq_Nil_conv)

lemma startup_schedule:
  assumes "schedule_requested a name"
  shows "v_schedule_selected (fst (startup a x w)) = name" "v_schedule_run (fst (startup a x w))"
  using assms
  by (auto simp: schedule_requested_def startup_def Let_def split_beta neq_Nil_conv)

lemma included_zonemap: "zonemap d' = zonemap d \<Longrightarrow> included d' = included d"
  by (rule ext) (simp add: included_def)

lemma zones_known_zonemap: "zonemap d' = zonemap d \<Longrightarrow> zones_known d' sc = zones_known d sc"
  by (simp add: zones_known_def)

lemma finish_frame:
  "relay_calls (finish v w) = relay_calls w" "irrigations (finish v w) = irrigations w"
  by (simp_all add: finish_def Let_def WriteJSON_def WriteLog_def cleanup_def)

lemma manual_branch_known:
  fixes v :: "'n vars" and w :: "'n world"
  assumes "zonemap (v_json_data_dict v) (v_zone v) \<noteq> None"
  shows "\<exists>v' w'. manual_branch p v w = (Inr v', w')
           \<and> relay_calls w' = relay_calls w @
                [(v_relay_trigger v, v_zone v,
                  engage_code p (v_zone v) (v_relay_trigger v) w),
                 (py_not (v_relay_trigger v), v_zone v,
                  disengage_code p (v_zone v) (v_relay_trigger v) w)]
           \<and> irrigations w' = irrigations w @ [(v_zone v, v_duration v, v_errorcode v')]"
proof -
  obtain z where z: "zonemap (v_json_data_dict v) (v_zone v) = Some z"
    using assms by auto
  define d1 where "d1 = (v_json_data_dict v)\<lparr>zonemap :=
     (zonemap (v_json_data_dict v))(v_zone v \<mapsto> z\<lparr>z_active := True\<rparr>)\<rparr>"
  define w0 where "w0 = WriteJSON d1 (WriteLog ''Manual Run Selected.'' w)"
  define d2 where "d2 = d1\<lparr>zonemap := (zonemap d1)(v_zone v \<mapsto> z\<lparr>z_active := False\<rparr>)\<rparr>"
  define ec where "ec = fst (Irrigate p (v_zone v) (v_duration v) (v_relay_trigger v) w0)"
  define w2 where "w2 = snd (Irrigate p (v_zone v) (v_duration v) (v_relay_trigger v) w0)"
  have f: "relay_calls w0 = relay_calls w" "irrigations w0 = irrigations w"
    by (simp_all add: w0_def WriteJSON_def WriteLog_def)
  have m: "manual_branch p v w
            = (Inr (v\<lparr>v_json_data_dict := d2, v_errorcode := ec\<rparr>), WriteJSON d2 w2)"
    using z by (simp add: manual_branch_def Let_def split_beta d1_def d2_def w0_def ec_def w2_def)
  have r: "relay_calls (WriteJSON d2 w2) = relay_calls w @
                [(v_relay_trigger v, v_zone v,
                  engage_code p (v_zone v) (v_relay_trigger v) w),
                 (py_not (v_relay_trigger v), v_zone v,
                  disengage_code p (v_zone v) (v_relay_trigger v) w)]"
    using f by (simp add: WriteJSON_def w2_def Irrigate_relay_calls engage_code_def
                  disengage_code_def)
  have i: "irrigations (WriteJSON d2 w2) = irrigations w @ [(v_zone v, v_duration v, ec)]"
    using f by (simp add: WriteJSON_def w2_def Irrigate_frame ec_def)
  show ?thesis
    apply (rule exI [of _ "v\<lparr>v_json_data_dict := d2, v_errorcode := ec\<rparr>"])
    apply (rule exI [of _ "WriteJSON d2 w2"])
    using m r i by simp
qed

text \<open>
  C6, as stated, fails: with the init flag the script initialises and runs nothing, also
  when force is set and the weather flags have cancelled.
\<close>

theorem force_with_init_runs_nothing:
  "arg_force (ex_manual_args True True)
   \<and> fst (wx_check ex_doc \<lparr>temp_current = 70, rain_history_total = 2, rain_forecast = 0\<rparr>)
   \<and> fst (control_script ex_platform (ex_manual_args True True) (ex_wx 2 0)
            (ex_world ex_doc [])) = Inr 0
   \<and> relay_calls (snd (control_script ex_platform (ex_manual_args True True) (ex_wx 2 0)
                         (ex_world ex_doc []))) = []"
  unfolding control_script_run_tree by code_simp

text \<open>
  C6, amended. When force is set and init is not, the script runs the requested branch
  whatever the weather flags say, and never the weather cancellation. For a manual run
  of a zone that \<open>zonemap\<close> has, the relay of the zone is engaged and then disengaged and
  the script ends with the code that Irrigate returned. For the run of a schedule that
  exists and names only zones of \<open>zonemap\<close>, Irrigate is called, with its two relay calls,
  for every item whose zone is enabled and whose duration is not 0, in sorted order, and
  the script ends with the code of the last of these calls (with the code of the weather
  fetch when there is none).
\<close>

theorem force_runs_requested:
  fixes w :: "'n::{plus,ord} world"
  assumes "arg_force a" "\<not> arg_init a"
  shows "control_script p a x w = run_requested p (startup a x w)
    \<and> (manual_requested a zone \<and> zonemap (json_file w) zone \<noteq> None
        \<longrightarrow> (\<exists>ec w'. control_script p a x w = (Inr ec, w')
              \<and> relay_calls w' = relay_calls w @
                   [(cfg_relay_trigger (settings (json_file w)), zone,
                     engage_code p zone (cfg_relay_trigger (settings (json_file w))) w),
                    (py_not (cfg_relay_trigger (settings (json_file w))), zone,
                     disengage_code p zone (cfg_relay_trigger (settings (json_file w))) w)]
              \<and> irrigations w' = irrigations w @
                   [(zone, case arg_duration a of Some n \<Rightarrow> n | None \<Rightarrow> 0, ec)]))
    \<and> (schedule_requested a name \<and> schedules (json_file w) name = Some sc
          \<and> zones_known (json_file w) sc
        \<longrightarrow> (\<exists>ec w' runs calls. control_script p a x w = (Inr ec, w')
              \<and> irrigations w' = irrigations w @ runs
              \<and> map run_of runs
                  = filter (included (json_file w)) (sort_key fst (zones sc))
              \<and> relay_calls w' = relay_calls w @ calls
              \<and> map call_of calls
                  = calls_for (cfg_relay_trigger (settings (json_file w)))
                      (filter (included (json_file w)) (sort_key fst (zones sc)))
              \<and> ec = (if runs = [] then snd (checkweather x) else code_of (last runs))))"
proof (intro conjI impI)
  show eq: "control_script p a x w = run_requested p (startup a x w)"
    using assms
    by (simp add: control_script_run_tree run_tree_def run_requested_def tree_def
          selected_branch_def startup_flags)
  define v where "v = fst (startup a x w)"
  define w1 where "w1 = snd (startup a x w)"
  have zm: "zonemap (v_json_data_dict v) = zonemap (json_file w)"
    and sm: "schedules (v_json_data_dict v) = schedules (json_file w)"
    and rt: "v_relay_trigger v = cfg_relay_trigger (settings (json_file w))"
    and du: "v_duration v = (case arg_duration a of Some n \<Rightarrow> n | None \<Rightarrow> 0)"
    and e0: "v_errorcode v = snd (checkweather x)"
    and r1: "relay_calls w1 = relay_calls w" and i1: "irrigations w1 = irrigations w"
    unfolding v_def w1_def by (rule startup_reads)+
  {
    assume h: "manual_requested a zone \<and> zonemap (json_file w) zone \<noteq> None"
    then have vz: "v_zone v = zone" and nr: "\<not> v_schedule_run v"
      unfolding v_def using startup_manual by blast+
    have "zonemap (v_json_data_dict v) (v_zone v) \<noteq> None"
      using h vz zm by simp
    from manual_branch_known [OF this, of p w1]
    obtain v' w' where m: "manual_branch p v w1 = (Inr v', w')"
      and r: "relay_calls w' = relay_calls w1 @
                [(v_relay_trigger v, v_zone v,
                  engage_code p (v_zone v) (v_relay_trigger v) w1),
                 (py_not (v_relay_trigger v), v_zone v,
                  disengage_code p (v_zone v) (v_relay_trigger v) w1)]"
      and i: "irrigations w' = irrigations w1 @ [(v_zone v, v_duration v, v_errorcode v')]"
      by blast
    have c: "control_script p a x w = (Inr (v_errorcode v'), finish v' w')"
      using eq m nr by (simp add: run_requested_def v_def w1_def)
    have ec: "engage_code p zone (v_relay_trigger v) w1 = engage_code p zone (v_relay_trigger v) w"
      "disengage_code p zone (v_relay_trigger v) w1
        = disengage_code p zone (v_relay_trigger v) w"
      using r1 by (simp_all add: engage_code_def disengage_code_def)
    show "\<exists>ec w'. control_script p a x w = (Inr ec, w')
              \<and> relay_calls w' = relay_calls w @
                   [(cfg_relay_trigger (settings (json_file w)), zone,
                     engage_code p zone (cfg_relay_trigger (settings (json_file w))) w),
                    (py_not (cfg_relay_trigger (settings (json_file w))), zone,
                     disengage_code p zone (cfg_relay_trigger (settings (json_file w))) w)]
              \<and> irrigations w' = irrigations w @
                   [(zone, case arg_duration a of Some n \<Rightarrow> n | None \<Rightarrow> 0, ec)]"
      apply (rule exI [of _ "v_errorcode v'"], rule exI [of _ "finish v' w'"])
      using c r i ec r1 i1 vz rt du by (simp add: finish_frame)
  }
  {
    assume h: "schedule_requested a name \<and> schedules (json_file w) name = Some sc
          \<and> zones_known (json_file w) sc"
    then have vs: "v_schedule_selected v = name" and sr: "v_schedule_run v"
      unfolding v_def using startup_schedule by blast+
    have f: "schedules (v_json_data_dict v) (v_schedule_selected v) = Some sc"
      using h vs sm by simp
    have k: "zones_known (v_json_data_dict v) sc"
      using h zones_known_zonemap [OF zm] by simp
    have inc: "included (v_json_data_dict v) = included (json_file w)"
      using included_zonemap [OF zm] .
    from schedule_branch_known [OF f k, of p w1]
    obtain v' w' runs calls where m: "schedule_branch p v w1 = (Inr v', w')"
      and i: "irrigations w' = irrigations w1 @ runs"
      and mr: "map run_of runs
                = filter (included (v_json_data_dict v)) (sort_key fst (zones sc))"
      and r: "relay_calls w' = relay_calls w1 @ calls"
      and mc: "map call_of calls = calls_for (v_relay_trigger v) (map run_of runs)"
      and e: "v_errorcode v' = (if runs = [] then v_errorcode v else code_of (last runs))"
      by blast
    have c: "control_script p a x w = (Inr (v_errorcode v'), finish v' w')"
      using eq m sr by (simp add: run_requested_def v_def w1_def)
    show "\<exists>ec w' runs calls. control_script p a x w = (Inr ec, w')
              \<and> irrigations w' = irrigations w @ runs
              \<and> map run_of runs
                  = filter (included (json_file w)) (sort_key fst (zones sc))
              \<and> relay_calls w' = relay_calls w @ calls
              \<and> map call_of calls
                  = calls_for (cfg_relay_trigger (settings (json_file w)))
                      (filter (included (json_file w)) (sort_key fst (zones sc)))
              \<and> ec = (if runs = [] then snd (checkweather x) else code_of (last runs))"
      apply (rule exI [of _ "v_errorcode v'"], rule exI [of _ "finish v' w'"])
      apply (rule exI [of _ runs], rule exI [of _ calls])
      using c i mr r mc e inc r1 i1 rt e0 by (simp add: finish_frame)
  }
qed

lemma ex_morning_included_file:
  "filter (included (json_file (ex_world ex_doc []))) (sort_key fst (zones ex_morning))
     = [(''alley'', 2), (''frontlawn'', 5)]"
  by (simp add: included_def ex_world_def ex_doc_def ex_morning_def)

theorem force_runs_requested_witness:
  "arg_force (ex_manual_args True False) \<and> \<not> arg_init (ex_manual_args True False)
   \<and> fst (wx_check ex_doc \<lparr>temp_current = 70, rain_history_total = 2, rain_forecast = 0\<rparr>)
   \<and> manual_requested (ex_manual_args True False) ''frontlawn''
   \<and> zonemap (json_file (ex_world ex_doc [])) ''frontlawn'' \<noteq> None
   \<and> (\<exists>ec w'. control_script ex_platform (ex_manual_args True False) (ex_wx 2 0)
                  (ex_world ex_doc []) = (Inr ec, w')
         \<and> relay_calls w' = [(0, ''frontlawn'', 3), (1, ''frontlawn'', 4)]
         \<and> irrigations w' = [(''frontlawn'', 5, ec)])
   \<and> arg_force ex_forced_schedule_args \<and> \<not> arg_init ex_forced_schedule_args
   \<and> schedule_requested ex_forced_schedule_args ''morning''
   \<and> schedules (json_file (ex_world ex_doc [])) ''morning'' = Some ex_morning
   \<and> zones_known (json_file (ex_world ex_doc [])) ex_morning
   \<and> (\<exists>ec w' runs calls.
         control_script ex_platform ex_forced_schedule_args (ex_wx 2 0)
           (ex_world ex_doc []) = (Inr ec, w')
         \<and> irrigations w' = runs
         \<and> map run_of runs = [(''alley'', 2), (''frontlawn'', 5)]
         \<and> relay_calls w' = calls
         \<and> map call_of calls
             = [(0, ''alley''), (1, ''alley''), (0, ''frontlawn''), (1, ''frontlawn'')]
         \<and> ec = (if runs = [] then snd (checkweather (ex_wx 2 0)) else code_of (last runs)))"
proof -
  have f1: "arg_force (ex_manual_args True False)"
    and i1: "\<not> arg_init (ex_manual_args True False)"
    and m1: "manual_requested (ex_manual_args True False) ''frontlawn''"
    by (simp_all add: ex_manual_args_def manual_requested_def)
  have z1: "zonemap (json_file (ex_world ex_doc [])) ''frontlawn'' \<noteq> None"
    by (simp add: ex_world_def ex_doc_def)
  have g: "fst (wx_check ex_doc
                  \<lparr>temp_current = 70, rain_history_total = 2, rain_forecast = 0\<rparr>)"
    by (simp add: wx_check_def ex_doc_def)
  have f2: "arg_force ex_forced_schedule_args" and i2: "\<not> arg_init ex_forced_schedule_args"
    and s2: "schedule_requested ex_forced_schedule_args ''morning''"
    by (simp_all add: ex_forced_schedule_args_def schedule_requested_def)
  have d2: "schedules (json_file (ex_world ex_doc [])) ''morning'' = Some ex_morning"
    by (simp add: ex_world_def ex_doc_def ex_morning_def)
  have k2: "zones_known (json_file (ex_world ex_doc [])) ex_morning"
    by (simp add: zones_known_def ex_world_def ex_doc_def ex_morning_def)
  have rt: "cfg_relay_trigger (settings (json_file (ex_world ex_doc []))) = 0"
    "relay_calls (ex_world ex_doc []) = []" "irrigations (ex_world ex_doc []) = []"
    "arg_duration (ex_manual_args True False) = Some 5"
    by (simp_all add: ex_world_def ex_doc_def ex_manual_args_def)
  have a: "\<exists>ec w'. control_script ex_platform (ex_manual_args True False) (ex_wx 2 0)
                  (ex_world ex_doc []) = (Inr ec, w')
         \<and> relay_calls w' = [(0, ''frontlawn'', 3), (1, ''frontlawn'', 4)]
         \<and> irrigations w' = [(''frontlawn'', 5, ec)]"
    using force_runs_requested [OF f1 i1, where p = ex_platform and x = "ex_wx 2 0"
            and w = "ex_world ex_doc []" and zone = "''frontlawn''",
            THEN conjunct2, THEN conjunct1] m1 z1
    by (simp add: rt engage_code_def disengage_code_def ex_platform_def py_not_def)
  have b: "\<exists>ec w' runs calls.
         control_script ex_platform ex_forced_schedule_args (ex_wx 2 0)
           (ex_world ex_doc []) = (Inr ec, w')
         \<and> irrigations w' = runs
         \<and> map run_of runs = [(''alley'', 2), (''frontlawn'', 5)]
         \<and> relay_calls w' = calls
         \<and> map call_of calls
             = [(0, ''alley''), (1, ''alley''), (0, ''frontlawn''), (1, ''frontlawn'')]
         \<and> ec = (if runs = [] then snd (checkweather (ex_wx 2 0)) else code_of (last runs))"
    using force_runs_requested [OF f2 i2, where p = ex_platform and x = "ex_wx 2 0"
            and w = "ex_world ex_doc []" and name = "''morning''" and sc = ex_morning,
            THEN conjunct2, THEN conjunct2] s2 d2 k2
    unfolding ex_morning_included_file
    by (simp add: rt calls_for_def py_not_def)
  show ?thesis
    by (intro conjI f1 i1 g m1 z1 a f2 i2 s2 d2 k2 b)
qed

section \<open>Clean-up\<close>

lemma zone_loop_cleanups:
  "cleanups (snd (zone_loop p rt items ec d w)) = cleanups w"
proof (induction items arbitrary: ec d w)
  case Nil
  then show ?case by simp
next
  case (Cons item items)
  obtain k dur where item: "item = (k, dur)" by (cases item)
  show ?case
    unfolding item
    by (simp add: Let_def split_beta Cons.IH WriteJSON_def ReadJSON_frame Irrigate_frame
          split: option.splits)
qed

lemma schedule_branch_cleanups: "cleanups (snd (schedule_branch p v w)) = cleanups w"
proof (cases "schedules (v_json_data_dict v) (v_schedule_selected v)")
  case None
  then show ?thesis by (simp add: schedule_branch_def Let_def WriteLog_def)
next
  case (Some sc)
  define d0 where "d0 = (v_json_data_dict v)\<lparr>schedules :=
     (schedules (v_json_data_dict v))(v_schedule_selected v \<mapsto> sc\<lparr>start_active := True\<rparr>)\<rparr>"
  define w0 where "w0 = WriteJSON d0
     (WriteLog (v_schedule_selected v @ '' found in JSON file. Running Now.'')
        (WriteLog (''Schedule Run Selected with Schedule: '' @ v_schedule_selected v) w))"
  obtain r w1 where l: "zone_loop p (v_relay_trigger v) (sort_key fst (zones sc))
                          (v_errorcode v) d0 w0 = (r, w1)"
    by (cases "zone_loop p (v_relay_trigger v) (sort_key fst (zones sc)) (v_errorcode v) d0 w0")
  have c: "cleanups w1 = cleanups w"
    using zone_loop_cleanups [of p "v_relay_trigger v" "sort_key fst (zones sc)"
            "v_errorcode v" d0 w0] l
    by (simp add: w0_def WriteJSON_def WriteLog_def)
  have "cleanups (snd (schedule_branch p v w)) = cleanups w1"
    using Some l
    by (simp add: schedule_branch_def Let_def d0_def w0_def WriteJSON_def
          split: sum.splits prod.splits option.splits)
  then show ?thesis using c by simp
qed

lemma manual_branch_cleanups: "cleanups (snd (manual_branch p v w)) = cleanups w"
  by (simp add: manual_branch_def Let_def split_beta WriteJSON_def WriteLog_def
        Irrigate_frame split: option.splits)

lemma tree_cleanups: "cleanups (snd (tree p v c r w)) = cleanups w"
  by (cases "selected_branch (v_init v) (v_schedule_run v) c (v_force v)")
     (simp_all add: tree_def WriteLog_def schedule_branch_cleanups manual_branch_cleanups)

lemma startup_cleanups: "cleanups (snd (startup a x w)) = cleanups w"
  by (simp add: startup_def Let_def split_beta WriteJSON_def WriteLog_def ReadJSON_frame)

lemma finish_effect:
  "cleanups (finish v w) = cleanups w + 1"
  "\<not> ctl_active (controls (json_file (finish v w)))"
  "\<not> manual_override (controls (json_file (finish v w)))"
  by (simp_all add: finish_def Let_def WriteJSON_def WriteLog_def cleanup_def)

text \<open>
  Every run that reaches \<open>exit()\<close> has called the clean-up of the driver once and has
  written both control flags as false.
\<close>

lemma exit_runs_cleanup:
  assumes "fst (control_script p a x w) = Inr ec"
  shows "cleanups (snd (control_script p a x w)) = cleanups w + 1
         \<and> \<not> ctl_active (controls (json_file (snd (control_script p a x w))))
         \<and> \<not> manual_override (controls (json_file (snd (control_script p a x w))))"
proof -
  define s where "s = startup a x w"
  define c where "c = fst (wx_check (v_json_data_dict (fst s)) (v_wx_status (fst s)))"
  define r where "r = snd (wx_check (v_json_data_dict (fst s)) (v_wx_status (fst s)))"
  obtain t w1 where t: "tree p (fst s) c r (snd s) = (t, w1)"
    by (cases "tree p (fst s) c r (snd s)")
  have cs: "control_script p a x w =
             (case t of Inl e \<Rightarrow> (Inl e, w1) | Inr v \<Rightarrow> (Inr (v_errorcode v), finish v w1))"
    using t by (simp add: control_script_run_tree run_tree_def s_def c_def r_def
                  split: sum.splits)
  have w1: "cleanups w1 = cleanups w"
    using tree_cleanups [of p "fst s" c r "snd s"] t startup_cleanups [of a x w]
    by (simp add: s_def)
  show ?thesis
  proof (cases t)
    case (Inl e)
    then show ?thesis using assms cs by simp
  next
    case (Inr v)
    then show ?thesis using cs w1 finish_effect [of v w1] by simp
  qed
qed

text \<open>
  C1. The manual run tests that the zone is a key of \<open>zonemap\<close>; the loop of the schedule
  run does not. A schedule that names a zone missing from \<open>zonemap\<close> ends the script with
  a KeyError at line 259: the clean-up of the driver is not called and the file keeps
  \<open>controls.active\<close> set.
\<close>

theorem unknown_zone_skips_cleanup:
  "fst (control_script ex_platform ex_schedule_args (ex_wx 0 0) (ex_world ex_doc_dangling []))
     = Inl (KeyError ''driveway'')
   \<and> cleanups (snd (control_script ex_platform ex_schedule_args (ex_wx 0 0)
                      (ex_world ex_doc_dangling []))) = 0
   \<and> ctl_active (controls (json_file (snd (control_script ex_platform ex_schedule_args
                      (ex_wx 0 0) (ex_world ex_doc_dangling [])))))"
  unfolding control_script_run_tree by code_simp

end
